theory Spec2Isabelle
  imports Main
begin

section \<open>Strings of the host language\<close>

text \<open>
  The program is TypeScript. Its strings are modelled as HOL strings whose characters are
  the code units U+0000 to U+00FF; on that range the functions below are exactly
  \<^verbatim>\<open>String.prototype.toLowerCase\<close>, \<^verbatim>\<open>trim\<close> and the regular expression class
  \<^verbatim>\<open>\s\<close>. A value that may be \<^verbatim>\<open>undefined\<close> or \<^verbatim>\<open>null\<close> is an \<open>option\<close>.
\<close>

definition nullish :: "'a option \<Rightarrow> 'a \<Rightarrow> 'a" where
  \<comment> \<open>\<^verbatim>\<open>x ?? d\<close>\<close>
  "nullish x d = (case x of None \<Rightarrow> d | Some v \<Rightarrow> v)"

definition jsWhitespace :: "char \<Rightarrow> bool" where
  \<comment> \<open>tab, line feed, vertical tab, form feed, carriage return, space, no-break space\<close>
  "jsWhitespace c =
     (c \<in> set [CHR 0x09, CHR 0x0A, CHR 0x0B, CHR 0x0C, CHR 0x0D, CHR 0x20, CHR 0xA0])"

definition toLowerChar :: "char \<Rightarrow> char" where
  "toLowerChar c =
     (let n = (of_char c :: nat)
      in if (65 \<le> n \<and> n \<le> 90) \<or> (192 \<le> n \<and> n \<le> 222 \<and> n \<noteq> 215)
         then char_of (n + 32) else c)"

definition toLowerCase :: "string \<Rightarrow> string" where
  "toLowerCase text = map toLowerChar text"

definition trim :: "string \<Rightarrow> string" where
  "trim text = rev (dropWhile jsWhitespace (rev (dropWhile jsWhitespace text)))"

definition digitChar :: "nat \<Rightarrow> char" where
  "digitChar d = char_of (48 + d)"

fun decimal :: "nat \<Rightarrow> string" where
  \<comment> \<open>the text of a non-negative integer inside a template literal\<close>
  "decimal n = (if n < 10 then [digitChar n] else decimal (n div 10) @ [digitChar (n mod 10)])"

declare decimal.simps [simp del]

section \<open>Accessibility records and virtual entries (shared/types.ts)\<close>

text \<open>
  \<open>role\<close>, \<open>name\<close>, \<open>description\<close> and \<open>val\<close> hold the \<^verbatim>\<open>value\<close> member of the
  optional typed value of the source (\<^verbatim>\<open>node.role?.value\<close>); \<open>val\<close> stands for the
  field \<^verbatim>\<open>value\<close>. The field \<^verbatim>\<open>properties\<close> is never read by the mapper or the kernel
  and is left out.
\<close>

record AXNode =
  nodeId :: string
  backendDOMNodeId :: "int option"
  role :: "string option"
  name :: "string option"
  description :: "string option"
  val :: "string option"
  childIds :: "string list option"
  ignored :: "bool option"

text \<open>The fields of a virtual entry carry the prefix \<open>vfs\<close> where the source reuses a name
  of \<open>AXNode\<close>. The optional \<^verbatim>\<open>children\<close> member is never assigned and is left out.\<close>

record VFSNode =
  axNodeId :: string
  vfsBackendDOMNodeId :: "int option"
  vfsName :: string
  vfsRole :: string
  vfsValue :: "string option"
  isDirectory :: bool

text \<open>The sources hold two revisions of shared/types.ts. The role sets are those of the
  first, which has the message types that this kernel uses; the second adds roles to
  \<open>CONTAINER_ROLES\<close> (search, figure, feed, log, status, timer, alertdialog, Iframe,
  IframePresentational).\<close>

definition CONTAINER_ROLES :: "string list" where
  "CONTAINER_ROLES =
     [''group'', ''navigation'', ''form'', ''section'', ''main'', ''complementary'', ''banner'',
      ''contentinfo'', ''region'', ''article'', ''list'', ''listitem'', ''tree'', ''treeitem'',
      ''tablist'', ''tabpanel'', ''dialog'', ''menu'', ''menubar'', ''toolbar'', ''table'', ''row'',
      ''rowgroup'', ''grid'', ''document'', ''application'', ''generic'', ''WebArea'',
      ''RootWebArea'']"

definition INTERACTIVE_ROLES :: "string list" where
  "INTERACTIVE_ROLES =
     [''button'', ''link'', ''textbox'', ''checkbox'', ''radio'', ''combobox'', ''menuitem'',
      ''menuitemcheckbox'', ''menuitemradio'', ''option'', ''switch'', ''tab'', ''slider'',
      ''spinbutton'', ''searchbox'']"

section \<open>The mapper (vfs_mapper.ts)\<close>

subsection \<open>generateNodeName\<close>

definition keptChar :: "char \<Rightarrow> bool" where
  \<comment> \<open>the characters that \<^verbatim>\<open>replace(/[^a-z0-9\s_-]/g, "")\<close> leaves in place\<close>
  "keptChar c =
     (let n = (of_char c :: nat)
      in (97 \<le> n \<and> n \<le> 122) \<or> (48 \<le> n \<and> n \<le> 57) \<or> jsWhitespace c
         \<or> c = CHR ''_'' \<or> c = CHR ''-'')"

function collapseWhitespace :: "string \<Rightarrow> string" where
  \<comment> \<open>\<^verbatim>\<open>replace(/\s+/g, "_")\<close>: every maximal run of whitespace becomes one underscore\<close>
  "collapseWhitespace [] = []"
| "collapseWhitespace (c # cs) =
     (if jsWhitespace c then CHR ''_'' # collapseWhitespace (dropWhile jsWhitespace cs)
      else c # collapseWhitespace cs)"
  by pat_completeness auto
termination
  by (relation "measure length") (auto simp: le_imp_less_Suc length_dropWhile_le)

definition sanitize :: "string \<Rightarrow> string" where
  "sanitize text =
     take 40 (collapseWhitespace (trim (filter keptChar (toLowerCase text))))"

text \<open>The suffix table is an object literal read with \<^verbatim>\<open>roleSuffix[role] ?? ""\<close>. A
  role is the name of an accessibility role, and the lookup is the one among the keys
  written in the literal.\<close>

definition roleSuffix :: "(string \<times> string) list" where
  "roleSuffix =
     [(''button'', ''_btn''), (''link'', ''_link''), (''textbox'', ''_input''),
      (''checkbox'', ''_chk''), (''radio'', ''_radio''), (''combobox'', ''_select''),
      (''menuitem'', ''_item''), (''tab'', ''_tab''), (''slider'', ''_slider''),
      (''searchbox'', ''_search''), (''switch'', ''_switch''), (''img'', ''_img''),
      (''image'', ''_img''), (''heading'', ''_heading'')]"

definition generateNodeName :: "AXNode \<Rightarrow> string" where
  "generateNodeName node =
     (let role' = nullish (role node) ''unknown'';
          name' = nullish (name node) [];
          description' = nullish (description node) [];
          suffix = nullish (map_of roleSuffix role') []
      in if name' \<noteq> [] \<and> sanitize name' \<noteq> [] then sanitize name' @ suffix
         else if description' \<noteq> [] \<and> sanitize description' \<noteq> []
              then sanitize description' @ suffix
         else role' @ (if suffix \<noteq> [] then suffix else ''_'' @ nodeId node))"

subsection \<open>isContainerNode\<close>

definition isContainerNode :: "AXNode \<Rightarrow> bool" where
  "isContainerNode node =
     (let role' = nullish (role node) []
      in if role' \<in> set CONTAINER_ROLES then True
         else (case childIds node of
                 None \<Rightarrow> False
               | Some ids \<Rightarrow> 0 < length ids \<and> role' \<notin> set INTERACTIVE_ROLES))"

subsection \<open>The node map\<close>

text \<open>A \<^verbatim>\<open>Map<string, AXNode>\<close> iterates in insertion order, and \<^verbatim>\<open>set\<close> on a key
  that is present replaces the value where it stands: an association list.\<close>

type_synonym NodeMap = "(string \<times> AXNode) list"

fun mapSet :: "'k \<Rightarrow> 'v \<Rightarrow> ('k \<times> 'v) list \<Rightarrow> ('k \<times> 'v) list" where
  "mapSet k v [] = [(k, v)]"
| "mapSet k v ((k', v') # m) = (if k' = k then (k, v) # m else (k', v') # mapSet k v m)"

definition isIgnored :: "AXNode \<Rightarrow> bool" where
  \<comment> \<open>truthiness of the optional flag\<close>
  "isIgnored node = (ignored node = Some True)"

fun buildNodeMapFrom :: "NodeMap \<Rightarrow> AXNode list \<Rightarrow> NodeMap" where
  "buildNodeMapFrom m [] = m"
| "buildNodeMapFrom m (node # axNodes) =
     buildNodeMapFrom (if \<not> isIgnored node then mapSet (nodeId node) node m else m) axNodes"

definition buildNodeMap :: "AXNode list \<Rightarrow> NodeMap" where
  "buildNodeMap axNodes = buildNodeMapFrom [] axNodes"

definition isRootRole :: "AXNode \<Rightarrow> bool" where
  "isRootRole node =
     (let role' = nullish (role node) [] in role' = ''RootWebArea'' \<or> role' = ''WebArea'')"

definition findRootNode :: "NodeMap \<Rightarrow> AXNode option" where
  "findRootNode nodeMap =
     (case find isRootRole (map snd nodeMap) of
        Some node \<Rightarrow> Some node
      | None \<Rightarrow> (case nodeMap of [] \<Rightarrow> None | (k, node) # m \<Rightarrow> Some node))"

subsection \<open>axNodeToVFSNode and deduplicateName\<close>

definition axNodeToVFSNode :: "AXNode \<Rightarrow> VFSNode option" where
  "axNodeToVFSNode node =
     (let role' = nullish (role node) []
      in if role' = ''none'' \<or> role' = ''Ignored'' then None
         else Some \<lparr> axNodeId = nodeId node,
                     vfsBackendDOMNodeId = backendDOMNodeId node,
                     vfsName = generateNodeName node,
                     vfsRole = role',
                     vfsValue = val node,
                     isDirectory = isContainerNode node \<rparr>)"

definition deduplicateName ::
  "VFSNode \<Rightarrow> (string \<rightharpoonup> nat) \<Rightarrow> VFSNode \<times> (string \<rightharpoonup> nat)" where
  "deduplicateName node seenNames =
     (let baseName = vfsName node;
          count = nullish (seenNames baseName) 0
      in ((if 0 < count then node\<lparr>vfsName := baseName @ ''_'' @ decimal (count + 1)\<rparr> else node),
          seenNames(baseName \<mapsto> count + 1)))"

subsection \<open>getChildVFSNodes\<close>

text \<open>
  \<open>childEntry\<close> is the body of the loop up to the entry that the iteration hands to
  \<open>deduplicateName\<close> and pushes; \<open>None\<close> is an iteration that pushes nothing. The source has
  two such places, one for the grandchild of a flattened wrapper and one for the child.
\<close>

definition childEntry :: "NodeMap \<Rightarrow> string \<Rightarrow> VFSNode option" where
  "childEntry nodeMap childId =
     (case map_of nodeMap childId of
        None \<Rightarrow> None
      | Some child \<Rightarrow>
          if isIgnored child then None
          else
            let role' = nullish (role child) [];
                name' = nullish (name child) []
            in if role' = ''none'' \<or> role' = ''Ignored'' then None
               else if role' = ''generic'' \<and> name' = [] then
                 (case childIds child of
                    Some [grandchildId] \<Rightarrow>
                      (case map_of nodeMap grandchildId of
                         None \<Rightarrow> axNodeToVFSNode child
                       | Some grandchild \<Rightarrow>
                           if \<not> isIgnored grandchild then axNodeToVFSNode grandchild
                           else axNodeToVFSNode child)
                  | _ \<Rightarrow> axNodeToVFSNode child)
               else axNodeToVFSNode child)"

fun listingLoop ::
  "NodeMap \<Rightarrow> string list \<Rightarrow> VFSNode list \<times> (string \<rightharpoonup> nat) \<Rightarrow> VFSNode list \<times> (string \<rightharpoonup> nat)"
  where
  "listingLoop nodeMap [] (results, seenNames) = (results, seenNames)"
| "listingLoop nodeMap (childId # rest) (results, seenNames) =
     (case childEntry nodeMap childId of
        None \<Rightarrow> listingLoop nodeMap rest (results, seenNames)
      | Some vfsNode \<Rightarrow>
          (case deduplicateName vfsNode seenNames of
             (vfsNode', seenNames') \<Rightarrow>
               listingLoop nodeMap rest (results @ [vfsNode'], seenNames')))"

definition getChildVFSNodes :: "string \<Rightarrow> NodeMap \<Rightarrow> VFSNode list" where
  "getChildVFSNodes parentId nodeMap =
     (case map_of nodeMap parentId of
        None \<Rightarrow> []
      | Some parent \<Rightarrow>
          (case childIds parent of
             None \<Rightarrow> []
           | Some ids \<Rightarrow> fst (listingLoop nodeMap ids ([], Map.empty))))"

definition findChildByName :: "string \<Rightarrow> string \<Rightarrow> NodeMap \<Rightarrow> VFSNode option" where
  "findChildByName parentId name' nodeMap =
     find (\<lambda>c. vfsName c = name') (getChildVFSNodes parentId nodeMap)"

section \<open>The debugger client (cdp_client.ts)\<close>

text \<open>
  What Chrome answers while one command runs is a parameter of the command. A failed
  call reports \<^verbatim>\<open>chrome.runtime.lastError.message\<close>. \<open>lastError\<close> is asked with the
  name of a protocol method; \<open>fullAXTree\<close> is the node list that
  \<^verbatim>\<open>Accessibility.getFullAXTree\<close> answers for the document of the attached tab, and
  \<open>subFrames\<close> are the frames embedded in that document, each with the node list of its own
  document.
\<close>

record Tab =
  tabId :: "int option"
  title :: "string option"
  url :: "string option"

record Cookie =
  cookieName :: string
  expirationDate :: "int option"

record Browser =
  activeTab :: "Tab option"
  debuggerAttach :: "string option"
  lastError :: "string \<Rightarrow> string option"
  fullAXTree :: "AXNode list"
  subFrames :: "(string \<times> AXNode list) list"
  textContent :: "int \<Rightarrow> string + string"
  clickNode :: "int \<Rightarrow> string option"
  clickCoordinates :: "int \<Rightarrow> string option"
  focusNode :: "int \<Rightarrow> string option"
  typeKeys :: "string \<Rightarrow> string option"
  pageUrl :: "string + string"
  cookies :: "string \<Rightarrow> string + Cookie list"

datatype Err =
    NotAttachedToTab      \<comment> \<open>ensureAttached: Not attached to a tab. Run 'attach' first.\<close>
  | NoCwdSet              \<comment> \<open>getCurrentNodeId: No CWD set. Run 'attach' first.\<close>
  | ClientNotAttached     \<comment> \<open>CDPClient.send: Not attached to any tab. Run 'attach' first.\<close>
  | LastError string      \<comment> \<open>the message of chrome.runtime.lastError\<close>

text \<open>The client's only field is \<^verbatim>\<open>attachedTabId\<close>; the client is that value.\<close>

type_synonym CDPClient = "int option"

definition send :: "Browser \<Rightarrow> CDPClient \<Rightarrow> string \<Rightarrow> Err + unit" where
  \<comment> \<open>a command whose result is not read\<close>
  "send b client method =
     (if client = None then Inl ClientNotAttached
      else (case lastError b method of Some m \<Rightarrow> Inl (LastError m) | None \<Rightarrow> Inr ()))"

definition cdpDetach :: "CDPClient \<Rightarrow> CDPClient" where
  "cdpDetach client = None"

definition cdpAttach :: "Browser \<Rightarrow> int \<Rightarrow> CDPClient \<Rightarrow> (Err + unit) \<times> CDPClient" where
  "cdpAttach b tab client =
     (if client = Some tab then (Inr (), client)
      else
        let client0 = (if client \<noteq> None then cdpDetach client else client)
        in (case debuggerAttach b of
              Some m \<Rightarrow> (Inl (LastError m), client0)
            | None \<Rightarrow>
                let client1 = Some tab
                in (case send b client1 ''Accessibility.enable'' of
                      Inl e \<Rightarrow> (Inl e, client1)
                    | Inr _ \<Rightarrow>
                        (case send b client1 ''DOM.enable'' of
                           Inl e \<Rightarrow> (Inl e, client1)
                         | Inr _ \<Rightarrow>
                             (case send b client1 ''Runtime.enable'' of
                                Inl e \<Rightarrow> (Inl e, client1)
                              | Inr _ \<Rightarrow> (Inr (), client1))))))"

definition getFullAXTree :: "Browser \<Rightarrow> CDPClient \<Rightarrow> Err + AXNode list" where
  "getFullAXTree b client =
     (case send b client ''Accessibility.getFullAXTree'' of
        Inl e \<Rightarrow> Inl e
      | Inr _ \<Rightarrow> Inr (fullAXTree b))"

text \<open>The element actuator (clicking, focusing, typing, reading text, the page's address)
  is outside the kernel: each of its calls goes through \<^verbatim>\<open>send\<close>, so it fails when the
  client is not attached and otherwise has the outcome the browser gives.\<close>

definition actuate :: "CDPClient \<Rightarrow> string option \<Rightarrow> Err + unit" where
  "actuate client failure =
     (if client = None then Inl ClientNotAttached
      else (case failure of Some m \<Rightarrow> Inl (LastError m) | None \<Rightarrow> Inr ()))"

definition readFrom :: "CDPClient \<Rightarrow> string + string \<Rightarrow> Err + string" where
  "readFrom client answer =
     (if client = None then Inl ClientNotAttached
      else (case answer of Inl m \<Rightarrow> Inl (LastError m) | Inr text \<Rightarrow> Inr text))"

section \<open>The shell kernel (background/index.ts)\<close>

record ShellState =
  cwd :: "string list"
  cwdNames :: "string list"
  attachedTabId :: "int option"
  env :: "(string \<times> string) list"

text \<open>The module's variables: \<^verbatim>\<open>state\<close>, \<^verbatim>\<open>nodeMap\<close> and the client \<^verbatim>\<open>cdp\<close>.\<close>

record Kernel =
  state :: ShellState
  nodeMap :: NodeMap
  cdp :: CDPClient

definition initialKernel :: Kernel where
  "initialKernel =
     \<lparr> state = \<lparr> cwd = [], cwdNames = [''/''], attachedTabId = None,
                 env = [(''SHELL'', ''/bin/agentshell''), (''TERM'', ''xterm-256color''),
                        (''PS1'', ''agent@shell:$PWD$ '')] \<rparr>,
       nodeMap = [], cdp = None \<rparr>"

text \<open>
  Every \<^verbatim>\<open>return\<close> of a command is one constructor, holding the values that the text
  interpolates; the colour codes and the layout of the text are not modelled. \<open>TreeView\<close>
  holds the root line and the depth argument of \<^verbatim>\<open>tree\<close>: the lines that
  \<^verbatim>\<open>buildTreeLines\<close> renders below it, or the error it ends with, are read from the
  node map only and are not computed here.
\<close>

datatype Reply =
    NoOutput
  | UncaughtTypeError
  | HelpText
  | ClearScreen
  | CommandNotFound string
  | CaughtError Err
  | NoActiveTab
  | AttachedTo int string string nat
  | ErrorAttaching Err
  | NotAttachedToAnyTab
  | Detached
  | NotAttachedRunAttach
  | Refreshed nat
  | EmptyDirectory
  | Listing bool "VFSNode list"
  | CdNoSuchDirectory string
  | CdNotADirectory string
  | Path string
  | Usage string
  | CatNoSuchFile string
  | CatInfo VFSNode "string option"
  | ClickNoSuchElement string
  | ClickNoBacking string
  | Clicked VFSNode
  | ClickedByCoordinates VFSNode
  | ClickFailed Err
  | FocusNoSuchElement string
  | FocusNoBacking string
  | Focused VFSNode
  | Typed nat
  | GrepNoMatches string
  | GrepMatches "VFSNode list"
  | TreeView string "string option"
  | WhoamiInfo string "Cookie list"
  | WhoamiError Err
  | EnvListing "(string \<times> string) list"
  | Exported string string

text \<open>A handler ends by returning a reply (\<open>Inr\<close>) or by throwing (\<open>Inl\<close>); either way
  the variables are left as the second component says.\<close>

type_synonym Outcome = "(Err + Reply) \<times> Kernel"

definition falsy :: "int option \<Rightarrow> bool" where
  \<comment> \<open>\<^verbatim>\<open>!n\<close> for a number that may be null\<close>
  "falsy n = (n = None \<or> n = Some 0)"

definition ensureAttached :: "Kernel \<Rightarrow> Err + unit" where
  "ensureAttached k =
     (if falsy (attachedTabId (state k)) \<or> length (nodeMap k) = 0 then Inl NotAttachedToTab
      else Inr ())"

definition getCurrentNodeId :: "Kernel \<Rightarrow> Err + string" where
  "getCurrentNodeId k =
     (if length (cwd (state k)) = 0 then Inl NoCwdSet else Inr (last (cwd (state k))))"

definition resetToRoot :: "Kernel \<Rightarrow> Kernel" where
  \<comment> \<open>\<^verbatim>\<open>const root = findRootNode(nodeMap); if (root) { ... }\<close>\<close>
  "resetToRoot k =
     (case findRootNode (nodeMap k) of
        Some root \<Rightarrow> k\<lparr>state := (state k)\<lparr>cwd := [nodeId root], cwdNames := [''/'']\<rparr>\<rparr>
      | None \<Rightarrow> k)"

definition handleAttach :: "Browser \<Rightarrow> Kernel \<Rightarrow> Outcome" where
  "handleAttach b k =
     (case activeTab b of
        None \<Rightarrow> (Inr NoActiveTab, k)
      | Some tab \<Rightarrow>
          if falsy (tabId tab) then (Inr NoActiveTab, k)
          else
            let tid = nullish (tabId tab) 0
            in (case cdpAttach b tid (cdp k) of
                  (Inl e, client) \<Rightarrow> (Inr (ErrorAttaching e), k\<lparr>cdp := client\<rparr>)
                | (Inr _, client) \<Rightarrow>
                    let k1 = k\<lparr>cdp := client, state := (state k)\<lparr>attachedTabId := Some tid\<rparr>\<rparr>
                    in (case getFullAXTree b client of
                          Inl e \<Rightarrow> (Inr (ErrorAttaching e), k1)
                        | Inr axNodes \<Rightarrow>
                            let k2 = resetToRoot (k1\<lparr>nodeMap := buildNodeMap axNodes\<rparr>)
                            in (Inr (AttachedTo tid (nullish (title tab) ''unknown'')
                                       (nullish (url tab) ''unknown'') (length (nodeMap k2))),
                                k2))))"

definition handleDetach :: "Kernel \<Rightarrow> Outcome" where
  "handleDetach k =
     (if falsy (attachedTabId (state k)) then (Inr NotAttachedToAnyTab, k)
      else (Inr Detached,
            k\<lparr>cdp := cdpDetach (cdp k),
              state := (state k)\<lparr>attachedTabId := None, cwd := [], cwdNames := [''/'']\<rparr>,
              nodeMap := []\<rparr>))"

definition handleRefresh :: "Browser \<Rightarrow> Kernel \<Rightarrow> Outcome" where
  "handleRefresh b k =
     (if falsy (attachedTabId (state k)) then (Inr NotAttachedRunAttach, k)
      else (case getFullAXTree b (cdp k) of
              Inl e \<Rightarrow> (Inl e, k)
            | Inr axNodes \<Rightarrow>
                let k1 = resetToRoot (k\<lparr>nodeMap := buildNodeMap axNodes\<rparr>)
                in (Inr (Refreshed (length (nodeMap k1))), k1)))"

definition handleLs :: "string list \<Rightarrow> Kernel \<Rightarrow> Outcome" where
  "handleLs args k =
     (case ensureAttached k of
        Inl e \<Rightarrow> (Inl e, k)
      | Inr _ \<Rightarrow>
          let longFormat = (''-l'' \<in> set args \<or> ''--long'' \<in> set args)
          in (case getCurrentNodeId k of
                Inl e \<Rightarrow> (Inl e, k)
              | Inr currentId \<Rightarrow>
                  let children = getChildVFSNodes currentId (nodeMap k)
                  in if length children = 0 then (Inr EmptyDirectory, k)
                     else (Inr (Listing longFormat children), k)))"

subsection \<open>cd\<close>

fun splitOn :: "char \<Rightarrow> string \<Rightarrow> string list" where
  \<comment> \<open>\<^verbatim>\<open>text.split(sep)\<close> for a separator of one character\<close>
  "splitOn sep [] = [[]]"
| "splitOn sep (c # cs) =
     (if c = sep then [] # splitOn sep cs
      else (case splitOn sep cs of
              [] \<Rightarrow> [[c]]
            | w # ws \<Rightarrow> (c # w) # ws))"

definition popLevel :: "Kernel \<Rightarrow> Kernel" where
  \<comment> \<open>\<^verbatim>\<open>if (state.cwd.length > 1) { state.cwd.pop(); state.cwdNames.pop(); }\<close>\<close>
  "popLevel k =
     (if 1 < length (cwd (state k))
      then k\<lparr>state := (state k)\<lparr>cwd := butlast (cwd (state k)),
                                  cwdNames := butlast (cwdNames (state k))\<rparr>\<rparr>
      else k)"

definition pushLevel :: "VFSNode \<Rightarrow> Kernel \<Rightarrow> Kernel" where
  "pushLevel match k =
     k\<lparr>state := (state k)\<lparr>cwd := cwd (state k) @ [axNodeId match],
                            cwdNames := cwdNames (state k) @ [vfsName match]\<rparr>\<rparr>"

fun cdLoop :: "string list \<Rightarrow> Kernel \<Rightarrow> Outcome" where
  "cdLoop [] k = (Inr NoOutput, k)"
| "cdLoop (part # pathParts) k =
     (if part = ''..'' then cdLoop pathParts (popLevel k)
      else (case getCurrentNodeId k of
              Inl e \<Rightarrow> (Inl e, k)
            | Inr currentId \<Rightarrow>
                (case findChildByName currentId part (nodeMap k) of
                   None \<Rightarrow> (Inr (CdNoSuchDirectory part), k)
                 | Some match \<Rightarrow>
                     if \<not> isDirectory match then (Inr (CdNotADirectory part), k)
                     else cdLoop pathParts (pushLevel match k))))"

definition handleCd :: "string list \<Rightarrow> Kernel \<Rightarrow> Outcome" where
  "handleCd args k =
     (case ensureAttached k of
        Inl e \<Rightarrow> (Inl e, k)
      | Inr _ \<Rightarrow>
          (case args of
             [] \<Rightarrow> (Inr NoOutput, resetToRoot k)
           | target # _ \<Rightarrow>
               if target = ''/'' then (Inr NoOutput, resetToRoot k)
               else if target = ''..'' then (Inr NoOutput, popLevel k)
               else cdLoop (filter (\<lambda>part. part \<noteq> []) (splitOn CHR ''/'' target)) k))"

fun join :: "string \<Rightarrow> string list \<Rightarrow> string" where
  "join sep [] = []"
| "join sep [x] = x"
| "join sep (x # y # ys) = x @ sep @ join sep (y # ys)"

definition handlePwd :: "Kernel \<Rightarrow> Outcome" where
  "handlePwd k =
     (if length (cwdNames (state k)) \<le> 1 then (Inr (Path ''/''), k)
      else (Inr (Path (''/'' @ join ''/'' (drop 1 (cwdNames (state k))))), k))"

subsection \<open>Commands that read the listing or act on an entry\<close>

definition truthyId :: "int option \<Rightarrow> bool" where
  "truthyId n = (\<not> falsy n)"

definition handleCat :: "string list \<Rightarrow> Browser \<Rightarrow> Kernel \<Rightarrow> Outcome" where
  "handleCat args b k =
     (case ensureAttached k of
        Inl e \<Rightarrow> (Inl e, k)
      | Inr _ \<Rightarrow>
          (case args of
             [] \<Rightarrow> (Inr (Usage ''cat <name>''), k)
           | targetName # _ \<Rightarrow>
               (case getCurrentNodeId k of
                  Inl e \<Rightarrow> (Inl e, k)
                | Inr currentId \<Rightarrow>
                    (case findChildByName currentId targetName (nodeMap k) of
                       None \<Rightarrow> (Inr (CatNoSuchFile targetName), k)
                     | Some match \<Rightarrow>
                         let text =
                           (if truthyId (vfsBackendDOMNodeId match) then
                              (case readFrom (cdp k)
                                      (textContent b (nullish (vfsBackendDOMNodeId match) 0)) of
                                 Inl e \<Rightarrow> None
                               | Inr t \<Rightarrow> if trim t \<noteq> [] then Some t else None)
                            else None)
                         in (Inr (CatInfo match text), k)))))"

definition handleClick :: "string list \<Rightarrow> Browser \<Rightarrow> Kernel \<Rightarrow> Outcome" where
  "handleClick args b k =
     (case ensureAttached k of
        Inl e \<Rightarrow> (Inl e, k)
      | Inr _ \<Rightarrow>
          (case args of
             [] \<Rightarrow> (Inr (Usage ''click <name>''), k)
           | targetName # _ \<Rightarrow>
               (case getCurrentNodeId k of
                  Inl e \<Rightarrow> (Inl e, k)
                | Inr currentId \<Rightarrow>
                    (case findChildByName currentId targetName (nodeMap k) of
                       None \<Rightarrow> (Inr (ClickNoSuchElement targetName), k)
                     | Some match \<Rightarrow>
                         if \<not> truthyId (vfsBackendDOMNodeId match)
                         then (Inr (ClickNoBacking targetName), k)
                         else
                           let backend = nullish (vfsBackendDOMNodeId match) 0
                           in (case actuate (cdp k) (clickNode b backend) of
                                 Inr _ \<Rightarrow> (Inr (Clicked match), k)
                               | Inl _ \<Rightarrow>
                                   (case actuate (cdp k) (clickCoordinates b backend) of
                                      Inr _ \<Rightarrow> (Inr (ClickedByCoordinates match), k)
                                    | Inl e \<Rightarrow> (Inr (ClickFailed e), k)))))))"

definition handleFocus :: "string list \<Rightarrow> Browser \<Rightarrow> Kernel \<Rightarrow> Outcome" where
  "handleFocus args b k =
     (case ensureAttached k of
        Inl e \<Rightarrow> (Inl e, k)
      | Inr _ \<Rightarrow>
          (case args of
             [] \<Rightarrow> (Inr (Usage ''focus <name>''), k)
           | targetName # _ \<Rightarrow>
               (case getCurrentNodeId k of
                  Inl e \<Rightarrow> (Inl e, k)
                | Inr currentId \<Rightarrow>
                    (case findChildByName currentId targetName (nodeMap k) of
                       None \<Rightarrow> (Inr (FocusNoSuchElement targetName), k)
                     | Some match \<Rightarrow>
                         if \<not> truthyId (vfsBackendDOMNodeId match)
                         then (Inr (FocusNoBacking targetName), k)
                         else (case actuate (cdp k)
                                      (focusNode b (nullish (vfsBackendDOMNodeId match) 0)) of
                                 Inl e \<Rightarrow> (Inl e, k)
                               | Inr _ \<Rightarrow> (Inr (Focused match), k))))))"

definition handleType :: "string list \<Rightarrow> Browser \<Rightarrow> Kernel \<Rightarrow> Outcome" where
  "handleType args b k =
     (case ensureAttached k of
        Inl e \<Rightarrow> (Inl e, k)
      | Inr _ \<Rightarrow>
          if length args = 0 then (Inr (Usage ''type <text>''), k)
          else
            let text = join '' '' args
            in (case actuate (cdp k) (typeKeys b text) of
                  Inl e \<Rightarrow> (Inl e, k)
                | Inr _ \<Rightarrow> (Inr (Typed (length text)), k)))"

fun strIncludes :: "string \<Rightarrow> string \<Rightarrow> bool" where
  \<comment> \<open>\<^verbatim>\<open>text.includes(pattern)\<close>\<close>
  "strIncludes [] pattern = (pattern = [])"
| "strIncludes (c # cs) pattern = (take (length pattern) (c # cs) = pattern \<or> strIncludes cs pattern)"

definition handleGrep :: "string list \<Rightarrow> Kernel \<Rightarrow> Outcome" where
  "handleGrep args k =
     (case ensureAttached k of
        Inl e \<Rightarrow> (Inl e, k)
      | Inr _ \<Rightarrow>
          (case args of
             [] \<Rightarrow> (Inr (Usage ''grep <pattern>''), k)
           | arg # _ \<Rightarrow>
               let pattern = toLowerCase arg
               in (case getCurrentNodeId k of
                     Inl e \<Rightarrow> (Inl e, k)
                   | Inr currentId \<Rightarrow>
                       let children = getChildVFSNodes currentId (nodeMap k);
                           matches = filter
                             (\<lambda>c. strIncludes (toLowerCase (vfsName c)) pattern \<or>
                                  strIncludes (toLowerCase (vfsRole c)) pattern \<or>
                                  (case vfsValue c of
                                     None \<Rightarrow> False
                                   | Some v \<Rightarrow> v \<noteq> [] \<and> strIncludes (toLowerCase v) pattern))
                             children
                       in if length matches = 0 then (Inr (GrepNoMatches pattern), k)
                          else (Inr (GrepMatches matches), k))))"

definition handleTree :: "string list \<Rightarrow> Kernel \<Rightarrow> Outcome" where
  "handleTree args k =
     (case ensureAttached k of
        Inl e \<Rightarrow> (Inl e, k)
      | Inr _ \<Rightarrow>
          (case getCurrentNodeId k of
             Inl e \<Rightarrow> (Inl e, k)
           | Inr currentId \<Rightarrow>
               let rootName = (case map_of (nodeMap k) currentId of
                                 Some currentNode \<Rightarrow> generateNodeName currentNode
                               | None \<Rightarrow> ''/'')
               in (Inr (TreeView rootName (case args of [] \<Rightarrow> None | a # _ \<Rightarrow> Some a)), k)))"

definition handleWhoami :: "Browser \<Rightarrow> Kernel \<Rightarrow> Outcome" where
  "handleWhoami b k =
     (if falsy (attachedTabId (state k)) then (Inr NotAttachedRunAttach, k)
      else (case readFrom (cdp k) (pageUrl b) of
              Inl e \<Rightarrow> (Inr (WhoamiError e), k)
            | Inr address \<Rightarrow>
                (case cookies b address of
                   Inl m \<Rightarrow> (Inr (WhoamiError (LastError m)), k)
                 | Inr cs \<Rightarrow> (Inr (WhoamiInfo address cs), k))))"

subsection \<open>Environment\<close>

definition handleEnv :: "Kernel \<Rightarrow> Outcome" where
  "handleEnv k = (Inr (EnvListing (env (state k))), k)"

fun indexOf :: "char \<Rightarrow> string \<Rightarrow> nat option" where
  "indexOf x [] = None"
| "indexOf x (c # cs) = (if c = x then Some 0 else map_option Suc (indexOf x cs))"

definition handleExport :: "string list \<Rightarrow> Kernel \<Rightarrow> Outcome" where
  "handleExport args k =
     (if length args = 0 then (Inr (Usage ''export KEY=VALUE''), k)
      else
        let joined = join '' '' args
        in (case indexOf CHR ''='' joined of
              None \<Rightarrow> (Inr (Usage ''export KEY=VALUE''), k)
            | Some eqIndex \<Rightarrow>
                let key = trim (take eqIndex joined);
                    value' = trim (drop (eqIndex + 1) joined)
                in (Inr (Exported key value'),
                    k\<lparr>state := (state k)\<lparr>env := mapSet key value' (env (state k))\<rparr>\<rparr>)))"

subsection \<open>The command parser\<close>

fun parseLoop :: "string \<Rightarrow> string list \<Rightarrow> string \<Rightarrow> char option \<Rightarrow> string list" where
  "parseLoop [] parts current inQuote = (if current \<noteq> [] then parts @ [current] else parts)"
| "parseLoop (c # input) parts current inQuote =
     (case inQuote of
        Some q \<Rightarrow>
          if c = q then parseLoop input parts current None
          else parseLoop input parts (current @ [c]) inQuote
      | None \<Rightarrow>
          if c = CHR 0x22 \<or> c = CHR 0x27 then parseLoop input parts current (Some c)
          else if c = CHR '' '' \<or> c = CHR 0x09 then
            (if current \<noteq> [] then parseLoop input (parts @ [current]) [] None
             else parseLoop input parts current None)
          else parseLoop input parts (current @ [c]) None)"

definition parseCommandLine :: "string \<Rightarrow> string list" where
  "parseCommandLine input = parseLoop input [] [] None"

definition dispatch :: "string \<Rightarrow> string list \<Rightarrow> Browser \<Rightarrow> Kernel \<Rightarrow> Outcome" where
  \<comment> \<open>the \<^verbatim>\<open>switch (cmd)\<close> of executeCommand\<close>
  "dispatch cmd args b k =
     (if cmd = ''help'' then (Inr HelpText, k)
      else if cmd = ''attach'' then handleAttach b k
      else if cmd = ''detach'' then handleDetach k
      else if cmd = ''ls'' then handleLs args k
      else if cmd = ''cd'' then handleCd args k
      else if cmd = ''pwd'' then handlePwd k
      else if cmd = ''cat'' then handleCat args b k
      else if cmd = ''click'' then handleClick args b k
      else if cmd = ''type'' then handleType args b k
      else if cmd = ''focus'' then handleFocus args b k
      else if cmd = ''grep'' then handleGrep args k
      else if cmd = ''whoami'' then handleWhoami b k
      else if cmd = ''env'' then handleEnv k
      else if cmd = ''export'' then handleExport args k
      else if cmd = ''tree'' then handleTree args k
      else if cmd = ''refresh'' then handleRefresh b k
      else if cmd = ''clear'' then (Inr ClearScreen, k)
      else (Inr (CommandNotFound cmd), k))"

definition executeCommand :: "Browser \<Rightarrow> string \<Rightarrow> Kernel \<Rightarrow> Reply \<times> Kernel" where
  "executeCommand b raw k =
     (let trimmed = trim raw
      in if trimmed = [] then (NoOutput, k)
         else (case parseCommandLine trimmed of
                 [] \<Rightarrow> (UncaughtTypeError, k)
               | first # args \<Rightarrow>
                   (case dispatch (toLowerCase first) args b k of
                      (Inl err, k') \<Rightarrow> (CaughtError err, k')
                    | (Inr reply, k') \<Rightarrow> (reply, k'))))"

section \<open>Auxiliary definitions\<close>

subsection \<open>The listing as a function of the entries before deduplication\<close>

definition listedChildIds :: "string \<Rightarrow> NodeMap \<Rightarrow> string list" where
  \<comment> \<open>the child ids that getChildVFSNodes iterates over\<close>
  "listedChildIds parentId nm =
     (case map_of nm parentId of
        None \<Rightarrow> []
      | Some parent \<Rightarrow> nullish (childIds parent) [])"

definition renamed :: "VFSNode \<Rightarrow> nat \<Rightarrow> VFSNode" where
  \<comment> \<open>an entry whose base name was seen \<open>earlier\<close> times before\<close>
  "renamed e earlier =
     (if earlier = 0 then e else e\<lparr>vfsName := vfsName e @ ''_'' @ decimal (earlier + 1)\<rparr>)"

fun renameAll :: "string list \<Rightarrow> VFSNode list \<Rightarrow> VFSNode list" where
  "renameAll bs [] = []"
| "renameAll bs (e # es) =
     renamed e (count_list bs (vfsName e)) # renameAll (bs @ [vfsName e]) es"

definition seenOf :: "string list \<Rightarrow> (string \<rightharpoonup> nat)" where
  \<comment> \<open>the map \<^verbatim>\<open>seenNames\<close> after the base names \<open>bs\<close>\<close>
  "seenOf bs = (\<lambda>b. if count_list bs b = 0 then None else Some (count_list bs b))"

subsection \<open>Example pages\<close>

definition axNode :: "string \<Rightarrow> string \<Rightarrow> string \<Rightarrow> string list \<Rightarrow> AXNode" where
  "axNode i r n cs =
     \<lparr> nodeId = i, backendDOMNodeId = None, role = Some r, name = Some n,
       description = None, val = None, childIds = Some cs, ignored = Some False \<rparr>"


definition submitTree :: "AXNode list" where
  "submitTree =
     [axNode ''1'' ''form'' ''Login'' [''2'', ''3''],
      axNode ''2'' ''button'' ''Submit'' [],
      axNode ''3'' ''button'' ''Submit'' []]"

definition pagesTree :: "AXNode list" where
  "pagesTree =
     [axNode ''1'' ''RootWebArea'' '''' [''2'', ''3'', ''4''],
      axNode ''2'' ''StaticText'' ''Page'' [],
      axNode ''3'' ''StaticText'' ''Page'' [],
      axNode ''4'' ''StaticText'' ''Page 2'' []]"

definition goTree :: "AXNode list" where
  "goTree =
     [axNode ''1'' ''RootWebArea'' '''' [''2''],
      (axNode ''2'' ''generic'' '''' [''3'']) \<lparr> name := None \<rparr>,
      axNode ''3'' ''button'' ''Go'' []]"

definition hiddenGoTree :: "AXNode list" where
  "hiddenGoTree =
     [axNode ''1'' ''RootWebArea'' '''' [''2''],
      (axNode ''2'' ''generic'' '''' [''3'']) \<lparr> name := None \<rparr>,
      (axNode ''3'' ''button'' ''Go'' []) \<lparr> ignored := Some True \<rparr>]"

definition decorTree :: "AXNode list" where
  "decorTree =
     [axNode ''1'' ''RootWebArea'' '''' [''2'', ''3''],
      axNode ''2'' ''none'' ''Decor'' [],
      axNode ''3'' ''button'' ''Go'' []]"

subsection \<open>Example browsers and kernels\<close>

definition pageBrowser :: "AXNode list \<Rightarrow> Browser" where
  \<comment> \<open>a tab showing a page with the given nodes; every call succeeds\<close>
  "pageBrowser nodes =
     \<lparr> activeTab = Some \<lparr> tabId = Some 1, title = Some ''Example'',
                           url = Some ''https://example.com/'' \<rparr>,
       debuggerAttach = None,
       lastError = (\<lambda>method. None),
       fullAXTree = nodes,
       subFrames = [],
       textContent = (\<lambda>backend. Inr []),
       clickNode = (\<lambda>backend. None),
       clickCoordinates = (\<lambda>backend. None),
       focusNode = (\<lambda>backend. None),
       typeKeys = (\<lambda>text. None),
       pageUrl = Inr ''https://example.com/'',
       cookies = (\<lambda>address. Inr []) \<rparr>"

definition mainTree :: "AXNode list" where
  "mainTree =
     [axNode ''1'' ''RootWebArea'' ''Example'' [''2''],
      axNode ''2'' ''main'' ''Main'' [''3''],
      axNode ''3'' ''searchbox'' ''Search'' []]"

definition attachedMain :: Kernel where
  "attachedMain = snd (executeCommand (pageBrowser mainTree) ''attach'' initialKernel)"

definition afterMain :: Kernel where
  "afterMain = snd (cdLoop [''main''] attachedMain)"

definition insideMain :: Kernel where
  "insideMain = snd (executeCommand (pageBrowser mainTree) ''cd main'' attachedMain)"

definition detachedAgain :: Kernel where
  "detachedAgain = snd (executeCommand (pageBrowser mainTree) ''detach'' attachedMain)"

definition framedPage :: Browser where
  \<comment> \<open>a page that embeds one frame whose document has a node with the id of the page's root\<close>
  "framedPage =
     (pageBrowser [axNode ''1'' ''RootWebArea'' ''Example'' []])
       \<lparr> subFrames := [(''frame-1'', [axNode ''1'' ''RootWebArea'' ''Advert'' []])] \<rparr>"

subsection \<open>Commands that need an attached tab\<close>



subsection \<open>Kernels that a session can reach\<close>

inductive reachable :: "Kernel \<Rightarrow> bool" where
  start: "reachable initialKernel"
| step: "reachable k \<Longrightarrow> reachable (snd (executeCommand b raw k))"

definition cwdInvariant :: "Kernel \<Rightarrow> bool" where
  "cwdInvariant k =
     (if cwd (state k) = [] then cwdNames (state k) = [''/''] \<and> nodeMap k = []
      else length (cwdNames (state k)) = length (cwd (state k)))"

section \<open>Properties of the mapper\<close>

subsection \<open>The loop of getChildVFSNodes\<close>

lemma seenOf_Nil: "seenOf [] = Map.empty"
  by (simp add: seenOf_def)

lemma deduplicateName_seenOf:
  "deduplicateName e (seenOf bs) =
     (renamed e (count_list bs (vfsName e)), seenOf (bs @ [vfsName e]))"
  by (auto simp: deduplicateName_def seenOf_def renamed_def nullish_def Let_def fun_eq_iff)

lemma listingLoop_seenOf:
  "listingLoop nm cids (rs, seenOf bs) =
     (rs @ renameAll bs (List.map_filter (childEntry nm) cids),
      seenOf (bs @ map vfsName (List.map_filter (childEntry nm) cids)))"
proof (induction cids arbitrary: rs bs)
  case Nil
  then show ?case by simp
next
  case (Cons cid cids)
  show ?case
  proof (cases "childEntry nm cid")
    case None
    then show ?thesis using Cons.IH by simp
  next
    case (Some e)
    then show ?thesis
      using Cons.IH [of "rs @ [renamed e (count_list bs (vfsName e))]" "bs @ [vfsName e]"]
      by (simp add: deduplicateName_seenOf)
  qed
qed

lemma listingLoop_from_empty:
  "listingLoop nm cids ([], Map.empty) =
     (renameAll [] (List.map_filter (childEntry nm) cids),
      seenOf (map vfsName (List.map_filter (childEntry nm) cids)))"
  using listingLoop_seenOf [of nm cids "[]" "[]"] by (simp add: seenOf_Nil)

lemma getChildVFSNodes_renameAll:
  "getChildVFSNodes pid nm = renameAll [] (List.map_filter (childEntry nm) (listedChildIds pid nm))"
  by (simp add: getChildVFSNodes_def listedChildIds_def listingLoop_from_empty nullish_def
      split: option.splits)

lemma length_renameAll: "length (renameAll bs es) = length es"
  by (induction es arbitrary: bs) auto

lemma renameAll_nth:
  "i < length es \<Longrightarrow>
   renameAll bs es ! i =
     renamed (es ! i) (count_list (bs @ map vfsName (take i es)) (vfsName (es ! i)))"
proof (induction es arbitrary: bs i)
  case Nil
  then show ?case by simp
next
  case (Cons e es)
  show ?case
  proof (cases i)
    case 0
    then show ?thesis by simp
  next
    case (Suc j)
    with Cons.prems have "j < length es" by simp
    from Cons.IH [OF this, of "bs @ [vfsName e]"] Suc show ?thesis by simp
  qed
qed

lemma renameAll_append:
  "renameAll bs (xs @ ys) = renameAll bs xs @ renameAll (bs @ map vfsName xs) ys"
  by (induction xs arbitrary: bs) auto

lemma map_axNodeId_renameAll: "map axNodeId (renameAll bs es) = map axNodeId es"
  by (induction es arbitrary: bs) (auto simp: renamed_def)

lemma map_vfsRole_renameAll: "map vfsRole (renameAll bs es) = map vfsRole es"
  by (induction es arbitrary: bs) (auto simp: renamed_def)

lemma map_filter_app:
  "List.map_filter f (xs @ ys) = List.map_filter f xs @ List.map_filter f ys"
  by (simp add: List.map_filter_def)

lemma set_map_filter: "v \<in> set (List.map_filter f xs) \<Longrightarrow> \<exists>x \<in> set xs. f x = Some v"
  by (auto simp: List.map_filter_def)

subsection \<open>Names\<close>





subsection \<open>Deduplication\<close>

text \<open>
  C2. The listing has one entry for every entry that the iterations hand to
  deduplicateName, in the same order. The entry at position \<open>i\<close> keeps its base name when
  no earlier entry has that base name; when \<open>earlier\<close> entries before it have it, its name
  is the base name followed by an underscore and \<open>earlier + 1\<close>. So of \<open>k\<close> entries with one
  base name the first keeps it and the others end with 2 to \<open>k\<close>, in listing order.
\<close>

theorem dedup_in_order:
  "length (getChildVFSNodes pid nm) =
     length (List.map_filter (childEntry nm) (listedChildIds pid nm)) \<and>
   (\<forall>i < length (List.map_filter (childEntry nm) (listedChildIds pid nm)).
      getChildVFSNodes pid nm ! i =
        (let entry = List.map_filter (childEntry nm) (listedChildIds pid nm) ! i;
             earlier = count_list
               (map vfsName (take i (List.map_filter (childEntry nm) (listedChildIds pid nm))))
               (vfsName entry)
         in if earlier = 0 then entry
            else entry\<lparr>vfsName := vfsName entry @ ''_'' @ decimal (earlier + 1)\<rparr>))"
  by (simp add: getChildVFSNodes_renameAll length_renameAll renameAll_nth renamed_def Let_def)

theorem dedup_in_order_witness:
  "getChildVFSNodes ''1'' (buildNodeMap submitTree) ! 1 =
     \<lparr> axNodeId = ''3'', vfsBackendDOMNodeId = None, vfsName = ''submit_btn_2'',
       vfsRole = ''button'', vfsValue = None, isDirectory = False \<rparr>"
proof -
  let ?nm = "buildNodeMap submitTree"
  let ?es = "List.map_filter (childEntry ?nm) (listedChildIds ''1'' ?nm)"
  have len: "1 < length ?es" by code_simp
  from dedup_in_order [of "''1''" ?nm] len
  have "getChildVFSNodes ''1'' ?nm ! 1 =
        (let entry = ?es ! 1; earlier = count_list (map vfsName (take 1 ?es)) (vfsName entry)
         in if earlier = 0 then entry
            else entry\<lparr>vfsName := vfsName entry @ ''_'' @ decimal (earlier + 1)\<rparr>)"
    by blast
  also have "\<dots> = \<lparr> axNodeId = ''3'', vfsBackendDOMNodeId = None, vfsName = ''submit_btn_2'',
       vfsRole = ''button'', vfsValue = None, isDirectory = False \<rparr>"
    by code_simp
  finally show ?thesis .
qed

text \<open>
  C3 does not hold of the code. deduplicateName looks up and records base names only, so
  a name it makes by appending a number can be the base name of a later sibling: three
  static texts named Page, Page and Page 2 are listed as page, page_2 and page_2.
\<close>

theorem sibling_names_collide:
  "map vfsName (getChildVFSNodes ''1'' (buildNodeMap pagesTree)) =
     [''page'', ''page_2'', ''page_2''] \<and>
   \<not> distinct (map vfsName (getChildVFSNodes ''1'' (buildNodeMap pagesTree)))"
  by code_simp

subsection \<open>Flattening\<close>

lemma childEntry_wrapper:
  assumes "map_of nm wid = Some w" and "\<not> isIgnored w"
    and "role w = Some ''generic''" and "nullish (name w) [] = []" and "childIds w = Some [gid]"
    and "map_of nm gid = Some g" and "\<not> isIgnored g"
  shows "childEntry nm wid = axNodeToVFSNode g"
  using assms by (simp add: childEntry_def nullish_def)

lemma childEntry_wrapper_unresolved:
  assumes "map_of nm wid = Some w" and "\<not> isIgnored w"
    and "role w = Some ''generic''" and "nullish (name w) [] = []" and "childIds w = Some [gid]"
    and "map_of nm gid = None \<or> (\<exists>g. map_of nm gid = Some g \<and> isIgnored g)"
  shows "childEntry nm wid = axNodeToVFSNode w"
  using assms by (auto simp: childEntry_def nullish_def)

lemma getChildVFSNodes_split:
  assumes "map_of nm pid = Some parent" and "childIds parent = Some (pre @ cid # post)"
    and "childEntry nm cid = Some e"
  shows "getChildVFSNodes pid nm =
           fst (listingLoop nm pre ([], Map.empty))
           @ fst (deduplicateName e (snd (listingLoop nm pre ([], Map.empty))))
           # renameAll (map vfsName (List.map_filter (childEntry nm) pre) @ [vfsName e])
               (List.map_filter (childEntry nm) post)"
  using assms
  by (simp add: getChildVFSNodes_renameAll listedChildIds_def nullish_def map_filter_app
      renameAll_append listingLoop_from_empty deduplicateName_seenOf)

text \<open>
  C4, as the code has it. Let a child of the listed parent have the role generic, no
  accessible name and exactly one child id, and let that id resolve in the node map to a
  node that is not ignored and whose role is neither none nor Ignored. Then the listing
  holds, at the position after the entries of the children before the wrapper, the entry of
  that grandchild (its VFS node, passed through deduplicateName with the names seen so
  far), followed by the entries of the children after the wrapper. The grandchild is
  converted as it is: a grandchild that is itself such a wrapper is listed as a directory,
  so one call elides one level.
\<close>

theorem wrapper_flattened_one_level:
  assumes "map_of nm pid = Some parent" and "childIds parent = Some (pre @ wid # post)"
    and "map_of nm wid = Some w" and "\<not> isIgnored w"
    and "role w = Some ''generic''" and "nullish (name w) [] = []" and "childIds w = Some [gid]"
    and "map_of nm gid = Some g" and "\<not> isIgnored g"
    and "nullish (role g) [] \<noteq> ''none''" and "nullish (role g) [] \<noteq> ''Ignored''"
  shows "let before = listingLoop nm pre ([], Map.empty);
             listing = getChildVFSNodes pid nm;
             i = length (fst before)
         in i < length listing \<and> take i listing = fst before \<and>
            Some (listing ! i) =
              map_option (\<lambda>entry. fst (deduplicateName entry (snd before))) (axNodeToVFSNode g) \<and>
            axNodeId (listing ! i) = nodeId g \<and>
            isDirectory (listing ! i) = isContainerNode g \<and>
            map axNodeId (drop (Suc i) listing) =
              map axNodeId (fst (listingLoop nm post ([], Map.empty)))"
proof -
  obtain e where e: "axNodeToVFSNode g = Some e"
    and eid: "axNodeId e = nodeId g" and edir: "isDirectory e = isContainerNode g"
    using assms(10,11) by (simp add: axNodeToVFSNode_def Let_def)
  have entry: "childEntry nm wid = Some e"
    using childEntry_wrapper [OF assms(3-9)] e by simp
  note split = getChildVFSNodes_split [OF assms(1,2) entry]
  have ded: "fst (deduplicateName e s) = e \<or>
             (\<exists>k. fst (deduplicateName e s) = e\<lparr>vfsName := k\<rparr>)" for s
    by (auto simp: deduplicateName_def Let_def)
  have did: "axNodeId (fst (deduplicateName e s)) = nodeId g" for s
    using ded [of s] eid by auto
  have ddir: "isDirectory (fst (deduplicateName e s)) = isContainerNode g" for s
    using ded [of s] edir by auto
  show ?thesis
    unfolding Let_def split
    by (simp add: e did ddir nth_append map_axNodeId_renameAll listingLoop_from_empty)
qed

theorem wrapper_flattened_one_level_witness:
  "let before = listingLoop (buildNodeMap goTree) [] ([], Map.empty);
       listing = getChildVFSNodes ''1'' (buildNodeMap goTree);
       i = length (fst before)
   in i < length listing \<and> take i listing = fst before \<and>
      Some (listing ! i) =
        map_option (\<lambda>entry. fst (deduplicateName entry (snd before)))
          (axNodeToVFSNode (axNode ''3'' ''button'' ''Go'' [])) \<and>
      axNodeId (listing ! i) = nodeId (axNode ''3'' ''button'' ''Go'' []) \<and>
      isDirectory (listing ! i) = isContainerNode (axNode ''3'' ''button'' ''Go'' []) \<and>
      map axNodeId (drop (Suc i) listing) =
        map axNodeId (fst (listingLoop (buildNodeMap goTree) [] ([], Map.empty)))"
  by (rule wrapper_flattened_one_level
        [of "buildNodeMap goTree" "''1''" "axNode ''1'' ''RootWebArea'' '''' [''2'']" "[]" "''2''" "[]"
            "(axNode ''2'' ''generic'' '''' [''3'']) \<lparr> name := None \<rparr>" "''3''"
            "axNode ''3'' ''button'' ''Go'' []"]; code_simp)

lemma go_listing: "map vfsName (getChildVFSNodes ''1'' (buildNodeMap goTree)) = [''go_btn'']"
  by code_simp

text \<open>
  C4 as stated fails: when the wrapper's only child is ignored, buildNodeMap drops it, the
  child id does not resolve, and the wrapper itself is listed.
\<close>

theorem wrapper_kept_when_child_hidden:
  "map axNodeId (getChildVFSNodes ''1'' (buildNodeMap hiddenGoTree)) = [''2''] \<and>
   map vfsName (getChildVFSNodes ''1'' (buildNodeMap hiddenGoTree)) = [''generic_2'']"
  by code_simp

subsection \<open>Roles that are never listed\<close>

lemma vfsRole_axNodeToVFSNode:
  "axNodeToVFSNode x = Some v \<Longrightarrow> vfsRole v \<noteq> ''none'' \<and> vfsRole v \<noteq> ''Ignored''"
  by (auto simp: axNodeToVFSNode_def Let_def split: if_splits)

lemma vfsRole_childEntry:
  "childEntry nm cid = Some v \<Longrightarrow> vfsRole v \<noteq> ''none'' \<and> vfsRole v \<noteq> ''Ignored''"
  unfolding childEntry_def Let_def
  by (auto split: option.splits if_splits list.splits dest: vfsRole_axNodeToVFSNode)

lemma listed_roles:
  assumes "v \<in> set (getChildVFSNodes pid nm)"
  shows "vfsRole v \<noteq> ''none'' \<and> vfsRole v \<noteq> ''Ignored''"
proof -
  let ?es = "List.map_filter (childEntry nm) (listedChildIds pid nm)"
  from assms have "vfsRole v \<in> set (map vfsRole (renameAll [] ?es))"
    by (simp add: getChildVFSNodes_renameAll)
  then have "vfsRole v \<in> vfsRole ` set ?es"
    by (simp add: map_vfsRole_renameAll)
  then obtain e where "e \<in> set ?es" and "vfsRole v = vfsRole e" by auto
  then show ?thesis
    using set_map_filter [of e "childEntry nm"] vfsRole_childEntry [of nm] by metis
qed

text \<open>
  C10. A node whose role is none or Ignored is never converted to a VFS node, whatever
  its ignored flag. As a child of the listed parent it adds nothing: the listing is the
  one of the other children. And no entry of a listing, direct or put there by flattening,
  has one of the two roles.
\<close>

theorem none_role_child_omitted:
  assumes "map_of nm pid = Some parent" and "childIds parent = Some (pre @ cid # post)"
    and "map_of nm cid = Some c"
    and "nullish (role c) [] = ''none'' \<or> nullish (role c) [] = ''Ignored''"
  shows "axNodeToVFSNode c = None \<and>
         getChildVFSNodes pid nm = fst (listingLoop nm (pre @ post) ([], Map.empty)) \<and>
         (\<forall>v \<in> set (getChildVFSNodes pid nm). vfsRole v \<noteq> ''none'' \<and> vfsRole v \<noteq> ''Ignored'')"
proof -
  have conv: "axNodeToVFSNode c = None"
    using assms(4) by (auto simp: axNodeToVFSNode_def Let_def)
  have "childEntry nm cid = None"
    using assms(3,4) by (auto simp: childEntry_def Let_def)
  then have "List.map_filter (childEntry nm) (pre @ cid # post) =
             List.map_filter (childEntry nm) (pre @ post)"
    by (simp add: map_filter_app)
  then have "getChildVFSNodes pid nm = fst (listingLoop nm (pre @ post) ([], Map.empty))"
    using assms(1,2)
    by (simp add: getChildVFSNodes_renameAll listedChildIds_def nullish_def listingLoop_from_empty)
  with conv listed_roles show ?thesis by blast
qed

theorem none_role_child_omitted_witness:
  "axNodeToVFSNode (axNode ''2'' ''none'' ''Decor'' []) = None \<and>
   ignored (axNode ''2'' ''none'' ''Decor'' []) = Some False \<and>
   map vfsName (getChildVFSNodes ''1'' (buildNodeMap decorTree)) = [''go_btn'']"
proof -
  let ?nm = "buildNodeMap decorTree"
  have 1: "map_of ?nm ''1'' = Some (axNode ''1'' ''RootWebArea'' '''' [''2'', ''3''])" by code_simp
  have 2: "childIds (axNode ''1'' ''RootWebArea'' '''' [''2'', ''3'']) = Some ([] @ ''2'' # [''3''])"
    by code_simp
  have 3: "map_of ?nm ''2'' = Some (axNode ''2'' ''none'' ''Decor'' [])" by code_simp
  have 4: "nullish (role (axNode ''2'' ''none'' ''Decor'' [])) [] = ''none'' \<or>
           nullish (role (axNode ''2'' ''none'' ''Decor'' [])) [] = ''Ignored''" by code_simp
  have run: "map vfsName (fst (listingLoop ?nm ([] @ [''3'']) ([], Map.empty))) = [''go_btn'']"
    by code_simp
  have flag: "ignored (axNode ''2'' ''none'' ''Decor'' []) = Some False" by code_simp
  from none_role_child_omitted [OF 1 2 3 4] run flag show ?thesis by simp
qed

section \<open>Properties of the kernel\<close>

subsection \<open>cd\<close>

lemma findChildByName_name:
  "findChildByName pid n nm = Some m \<Longrightarrow> vfsName m = n"
  by (auto simp: findChildByName_def find_Some_iff)

lemma cdLoop_append:
  "cdLoop resolved k = (Inr NoOutput, k') \<Longrightarrow> cdLoop (resolved @ rest) k = cdLoop rest k'"
proof (induction resolved arbitrary: k)
  case Nil
  then show ?case by simp
next
  case (Cons part resolved)
  then show ?case
    by (auto split: if_splits sum.splits option.splits)
qed

lemma cdLoop_nonempty:
  "cdLoop parts k = (r, k') \<Longrightarrow> cwd (state k) \<noteq> [] \<Longrightarrow> cwd (state k') \<noteq> []"
proof (induction parts arbitrary: k)
  case Nil
  then show ?case by simp
next
  case (Cons part parts)
  show ?case
  proof (cases "part = ''..''")
    case True
    have "cwd (state (popLevel k)) \<noteq> []"
      using Cons.prems(2) by (cases "cwd (state k)" rule: rev_cases) (auto simp: popLevel_def)
    with Cons True show ?thesis by simp
  next
    case False
    with Cons show ?thesis
      by (auto simp: pushLevel_def split: sum.splits option.splits if_splits)
  qed
qed

lemma cdLoop_pushes:
  "cdLoop parts k = (Inr NoOutput, k') \<Longrightarrow> ''..'' \<notin> set parts \<Longrightarrow>
   cwdNames (state k') = cwdNames (state k) @ parts \<and>
   (\<exists>ids. cwd (state k') = cwd (state k) @ ids \<and> length ids = length parts) \<and>
   nodeMap k' = nodeMap k"
proof (induction parts arbitrary: k)
  case Nil
  then show ?case by simp
next
  case (Cons part parts)
  from Cons.prems obtain cur m where cur: "getCurrentNodeId k = Inr cur"
    and m: "findChildByName cur part (nodeMap k) = Some m" and dir: "isDirectory m"
    and rest: "cdLoop parts (pushLevel m k) = (Inr NoOutput, k')"
    by (auto split: sum.splits option.splits if_splits)
  from Cons.prems(2) have "''..'' \<notin> set parts" by simp
  from Cons.IH [OF rest this] obtain ids where
    names: "cwdNames (state k') = cwdNames (state (pushLevel m k)) @ parts"
    and ids: "cwd (state k') = cwd (state (pushLevel m k)) @ ids" "length ids = length parts"
    and nm: "nodeMap k' = nodeMap (pushLevel m k)"
    by blast
  have "cwd (state k') = cwd (state k) @ (axNodeId m # ids)"
    using ids by (simp add: pushLevel_def)
  moreover have "length (axNodeId m # ids) = length (part # parts)"
    using ids by simp
  ultimately have "\<exists>ids. cwd (state k') = cwd (state k) @ ids \<and> length ids = length (part # parts)"
    by blast
  with names nm findChildByName_name [OF m] show ?case
    by (simp add: pushLevel_def)
qed

text \<open>
  C5. Let the shell be attached with a working directory, and let the path be neither
  \<open>/\<close> nor \<open>..\<close>. If the segments before \<open>part\<close> all resolve, taking the kernel from \<open>k\<close>
  to \<open>k'\<close>, and \<open>part\<close> names no child of the directory reached or names a file, then cd
  answers that \<open>part\<close> is no such directory, or not a directory, and leaves the kernel at
  \<open>k'\<close>: the segments resolved so far stay applied. When none of them is \<open>..\<close>, the
  names of the working directory are the old ones followed by those segments, and the ids
  are the old ones followed by one id for each.
\<close>

theorem cd_stops_at_first_failure:
  assumes "ensureAttached k = Inr ()" and "cwd (state k) \<noteq> []"
    and "target \<noteq> ''/''" and "target \<noteq> ''..''"
    and "filter (\<lambda>part. part \<noteq> []) (splitOn CHR ''/'' target) = resolved @ part # rest"
    and "cdLoop resolved k = (Inr NoOutput, k')"
    and "part \<noteq> ''..''"
    and "findChildByName (last (cwd (state k'))) part (nodeMap k') = None \<or>
         (\<exists>m. findChildByName (last (cwd (state k'))) part (nodeMap k') = Some m \<and>
              \<not> isDirectory m)"
  shows "handleCd (target # others) k =
           (Inr (case findChildByName (last (cwd (state k'))) part (nodeMap k') of
                   None \<Rightarrow> CdNoSuchDirectory part
                 | Some m \<Rightarrow> CdNotADirectory part),
            k') \<and>
         (''..'' \<notin> set resolved \<longrightarrow>
            cwdNames (state k') = cwdNames (state k) @ resolved \<and>
            length (cwd (state k')) = length (cwd (state k)) + length resolved \<and>
            take (length (cwd (state k))) (cwd (state k')) = cwd (state k))"
proof -
  have "cwd (state k') \<noteq> []"
    using cdLoop_nonempty [OF assms(6) assms(2)] .
  then have cur: "getCurrentNodeId k' = Inr (last (cwd (state k')))"
    by (simp add: getCurrentNodeId_def)
  have "handleCd (target # others) k = cdLoop (resolved @ part # rest) k"
    using assms(1,3,4,5) by (simp add: handleCd_def)
  also have "\<dots> = cdLoop (part # rest) k'"
    using cdLoop_append [OF assms(6)] .
  also have "\<dots> = (Inr (case findChildByName (last (cwd (state k'))) part (nodeMap k') of
                   None \<Rightarrow> CdNoSuchDirectory part
                 | Some m \<Rightarrow> CdNotADirectory part), k')"
    using assms(7,8) cur by auto
  finally have first: "handleCd (target # others) k =
      (Inr (case findChildByName (last (cwd (state k'))) part (nodeMap k') of
              None \<Rightarrow> CdNoSuchDirectory part
            | Some m \<Rightarrow> CdNotADirectory part), k')" .
  have second: "cwdNames (state k') = cwdNames (state k) @ resolved \<and>
        length (cwd (state k')) = length (cwd (state k)) + length resolved \<and>
        take (length (cwd (state k))) (cwd (state k')) = cwd (state k)"
    if "''..'' \<notin> set resolved"
    using cdLoop_pushes [OF assms(6) that] by auto
  from first second show ?thesis by blast
qed

text \<open>Scenario D of the specification: \<open>main\<close> exists, \<open>form\<close> does not.\<close>

theorem cd_stops_at_first_failure_witness:
  "handleCd [''main/form''] attachedMain = (Inr (CdNoSuchDirectory ''form''), afterMain) \<and>
   cwd (state afterMain) = [''1'', ''2''] \<and>
   cwdNames (state afterMain) = [''/'', ''main'']"
proof -
  have 1: "ensureAttached attachedMain = Inr ()" by code_simp
  have 2: "cwd (state attachedMain) \<noteq> []" by code_simp
  have 3: "''main/form'' \<noteq> ''/''" by simp
  have 4: "''main/form'' \<noteq> ''..''" by simp
  have 5: "filter (\<lambda>part. part \<noteq> []) (splitOn CHR ''/'' ''main/form'') = [''main''] @ ''form'' # []"
    by code_simp
  have 6: "cdLoop [''main''] attachedMain = (Inr NoOutput, afterMain)" by code_simp
  have 7: "''form'' \<noteq> ''..''" by simp
  have 8: "findChildByName (last (cwd (state afterMain))) ''form'' (nodeMap afterMain) = None \<or>
         (\<exists>m. findChildByName (last (cwd (state afterMain))) ''form'' (nodeMap afterMain) = Some m \<and>
              \<not> isDirectory m)"
  proof -
    have "findChildByName (last (cwd (state afterMain))) ''form'' (nodeMap afterMain) = None"
      by code_simp
    then show ?thesis by blast
  qed
  have none: "findChildByName (last (cwd (state afterMain))) ''form'' (nodeMap afterMain) = None"
    by code_simp
  have ids: "cwd (state afterMain) = [''1'', ''2'']" by code_simp
  have names: "cwdNames (state attachedMain) = [''/'']" by code_simp
  have nodots: "''..'' \<notin> set [''main'']" by simp
  from cd_stops_at_first_failure [OF 1 2 3 4 5 6 7 8, of "[]"] none ids names nodots
  show ?thesis by simp
qed

subsection \<open>Commands in the detached state\<close>


lemma parseCommandLine_Nil: "parseCommandLine [] = []"
  by (simp add: parseCommandLine_def)





subsection \<open>The two paths of the working directory\<close>

lemma findRootNode_None: "findRootNode nm = None \<longleftrightarrow> nm = []"
  by (cases nm) (auto simp: findRootNode_def split: option.splits)

lemma resetToRoot_invariant:
  "cwdInvariant k \<Longrightarrow> cwdInvariant (resetToRoot (k\<lparr>nodeMap := nm\<rparr>))"
  using findRootNode_None [of nm]
  by (auto simp: resetToRoot_def cwdInvariant_def split: option.splits if_splits)

lemma resetToRoot_invariant_same: "cwdInvariant k \<Longrightarrow> cwdInvariant (resetToRoot k)"
  using resetToRoot_invariant [of k "nodeMap k"] by simp

lemma popLevel_invariant: "cwdInvariant k \<Longrightarrow> cwdInvariant (popLevel k)"
  by (cases "cwd (state k)" rule: rev_cases)
     (auto simp: popLevel_def cwdInvariant_def split: if_splits)

lemma cdLoop_invariant: "cwdInvariant k \<Longrightarrow> cwdInvariant (snd (cdLoop parts k))"
proof (induction parts arbitrary: k)
  case Nil
  then show ?case by simp
next
  case (Cons part parts)
  show ?case
  proof (cases "part = ''..''")
    case True
    with Cons popLevel_invariant show ?thesis by simp
  next
    case False
    have push: "cwdInvariant (pushLevel m k)" if "getCurrentNodeId k = Inr cur" for m cur
      using that Cons.prems
      by (auto simp: getCurrentNodeId_def pushLevel_def cwdInvariant_def split: if_splits)
    from False Cons.prems Cons.IH push show ?thesis
      by (auto split: sum.splits option.splits)
  qed
qed

lemma handleCd_invariant: "cwdInvariant k \<Longrightarrow> cwdInvariant (snd (handleCd args k))"
  by (auto simp: handleCd_def resetToRoot_invariant_same popLevel_invariant cdLoop_invariant
      split: sum.splits list.splits)

lemma handleAttach_invariant: "cwdInvariant k \<Longrightarrow> cwdInvariant (snd (handleAttach b k))"
proof -
  assume inv: "cwdInvariant k"
  have 1: "cwdInvariant (k\<lparr>cdp := c\<rparr>)" for c
    using inv by (simp add: cwdInvariant_def)
  have 2: "cwdInvariant (k\<lparr>cdp := c, state := (state k)\<lparr>attachedTabId := t\<rparr>\<rparr>)" for c t
    using inv by (simp add: cwdInvariant_def)
  show ?thesis
    using inv 1 2 resetToRoot_invariant [OF 2]
    by (auto simp: handleAttach_def Let_def split: option.splits prod.splits sum.splits)
qed

lemma handleDetach_invariant: "cwdInvariant k \<Longrightarrow> cwdInvariant (snd (handleDetach k))"
  by (simp add: handleDetach_def cwdInvariant_def)

lemma handleRefresh_invariant: "cwdInvariant k \<Longrightarrow> cwdInvariant (snd (handleRefresh b k))"
  by (auto simp: handleRefresh_def Let_def resetToRoot_invariant split: sum.splits)

lemma handleExport_invariant: "cwdInvariant k \<Longrightarrow> cwdInvariant (snd (handleExport args k))"
  by (auto simp: handleExport_def Let_def cwdInvariant_def split: option.splits)

lemma handleLs_same: "snd (handleLs args k) = k"
  by (auto simp: handleLs_def Let_def split: sum.splits)

lemma handlePwd_same: "snd (handlePwd k) = k"
  by (simp add: handlePwd_def)

lemma handleCat_same: "snd (handleCat args b k) = k"
  by (auto simp: handleCat_def Let_def split: sum.splits list.splits option.splits)

lemma handleClick_same: "snd (handleClick args b k) = k"
  by (auto simp: handleClick_def Let_def split: sum.splits list.splits option.splits)

lemma handleFocus_same: "snd (handleFocus args b k) = k"
  by (auto simp: handleFocus_def Let_def split: sum.splits list.splits option.splits)

lemma handleType_same: "snd (handleType args b k) = k"
  by (auto simp: handleType_def Let_def split: sum.splits)

lemma handleGrep_same: "snd (handleGrep args k) = k"
  by (auto simp: handleGrep_def Let_def split: sum.splits list.splits)

lemma handleTree_same: "snd (handleTree args k) = k"
  by (auto simp: handleTree_def Let_def split: sum.splits)

lemma handleWhoami_same: "snd (handleWhoami b k) = k"
  by (auto simp: handleWhoami_def split: sum.splits)

lemma dispatch_invariant: "cwdInvariant k \<Longrightarrow> cwdInvariant (snd (dispatch cmd args b k))"
  by (simp add: dispatch_def handleAttach_invariant handleDetach_invariant handleRefresh_invariant
      handleCd_invariant handleExport_invariant handleLs_same handlePwd_same handleCat_same
      handleClick_same handleFocus_same handleType_same handleGrep_same handleTree_same
      handleWhoami_same handleEnv_def)

lemma executeCommand_invariant:
  "cwdInvariant k \<Longrightarrow> cwdInvariant (snd (executeCommand b raw k))"
proof -
  assume inv: "cwdInvariant k"
  have "cwdInvariant (snd (case dispatch cmd args b k of
          (Inl err, k') \<Rightarrow> (CaughtError err, k') | (Inr reply, k') \<Rightarrow> (reply, k')))" for cmd args
    using dispatch_invariant [OF inv, of cmd args b]
    by (cases "dispatch cmd args b k") (auto split: sum.splits)
  with inv show ?thesis
    by (auto simp: executeCommand_def Let_def split: list.splits)
qed

lemma reachable_invariant: "reachable k \<Longrightarrow> cwdInvariant k"
proof (induction rule: reachable.induct)
  case start
  show ?case by (simp add: cwdInvariant_def initialKernel_def)
next
  case (step k b raw)
  then show ?case by (simp add: executeCommand_invariant)
qed

lemma attached_has_cwd:
  "reachable k \<Longrightarrow> ensureAttached k = Inr () \<Longrightarrow>
   cwd (state k) \<noteq> [] \<and> length (cwdNames (state k)) = length (cwd (state k))"
  using reachable_invariant [of k]
  by (auto simp: cwdInvariant_def ensureAttached_def split: if_splits)

text \<open>
  C7, as the code has it. In every kernel that a sequence of commands reaches from the
  initial one, the two paths have equal length whenever the id path is not empty; the id
  path is empty only while the node map is empty, and then the names are the single
  name \<open>/\<close>.
\<close>

theorem cwd_paths_agree:
  assumes "reachable k"
  shows "if cwd (state k) = [] then cwdNames (state k) = [''/''] \<and> nodeMap k = []
         else length (cwdNames (state k)) = length (cwd (state k))"
  using reachable_invariant [OF assms] by (simp add: cwdInvariant_def)

theorem cwd_paths_agree_witness:
  "cwd (state insideMain) = [''1'', ''2''] \<and> cwdNames (state insideMain) = [''/'', ''main''] \<and>
   length (cwdNames (state insideMain)) = length (cwd (state insideMain))"
proof -
  have reach: "reachable insideMain"
    unfolding insideMain_def attachedMain_def by (intro reachable.step reachable.start)
  have ids: "cwd (state insideMain) = [''1'', ''2'']" by code_simp
  have names: "cwdNames (state insideMain) = [''/'', ''main'']" by code_simp
  from cwd_paths_agree [OF reach] ids names show ?thesis by simp
qed

text \<open>
  C7 as stated fails: detach (like the initial state) sets the id path to the empty list
  and the names to the single name \<open>/\<close>.
\<close>

theorem detach_leaves_unequal_paths:
  "cwd (state detachedAgain) = [] \<and> cwdNames (state detachedAgain) = [''/''] \<and>
   length (cwd (state detachedAgain)) \<noteq> length (cwdNames (state detachedAgain))"
  by code_simp

subsection \<open>Fetching the tree\<close>

text \<open>
  C8, as the code has it. getFullAXTree sends one request and returns the node list of
  the attached tab's document as received: the ids are not rewritten, and the result does
  not depend on the frames of the page.
\<close>

theorem getFullAXTree_main_document_only:
  assumes "getFullAXTree b client = Inr nodes"
  shows "nodes = fullAXTree b \<and> map nodeId nodes = map nodeId (fullAXTree b) \<and>
         getFullAXTree (b\<lparr>subFrames := frames\<rparr>) client = Inr nodes"
  using assms by (auto simp: getFullAXTree_def send_def split: sum.splits if_splits option.splits)

theorem getFullAXTree_main_document_only_witness:
  "getFullAXTree framedPage (Some 1) = Inr [axNode ''1'' ''RootWebArea'' ''Example'' []] \<and>
   getFullAXTree (framedPage\<lparr>subFrames := []\<rparr>) (Some 1) =
     Inr [axNode ''1'' ''RootWebArea'' ''Example'' []]"
proof -
  have run: "getFullAXTree framedPage (Some 1) = Inr [axNode ''1'' ''RootWebArea'' ''Example'' []]"
    by code_simp
  from getFullAXTree_main_document_only [OF run, of "[]"] run show ?thesis by simp
qed

text \<open>
  C8 as stated fails: for a page with one embedded frame the result is the node of the
  main document alone; no node of the frame is in it.
\<close>

theorem frame_nodes_not_fetched:
  "getFullAXTree framedPage (Some 1) = Inr [axNode ''1'' ''RootWebArea'' ''Example'' []] \<and>
   subFrames framedPage = [(''frame-1'', [axNode ''1'' ''RootWebArea'' ''Advert'' []])]"
  by code_simp

subsection \<open>find\<close>

text \<open>
  C9, as the code has it. The switch of executeCommand has no case for find: a command
  line whose first word is find, in any letter case, is answered with \<open>command not found\<close>
  and the kernel is left as it was.
\<close>

theorem find_is_not_a_command:
  assumes "parseCommandLine (trim raw) = first # args" and "toLowerCase first = ''find''"
  shows "executeCommand b raw k = (CommandNotFound ''find'', k)"
proof -
  have "trim raw \<noteq> []"
    using assms(1) parseCommandLine_Nil by auto
  then show ?thesis
    using assms by (simp add: executeCommand_def dispatch_def)
qed

theorem find_is_not_a_command_witness:
  "executeCommand (pageBrowser mainTree) ''find --type searchbox'' insideMain =
     (CommandNotFound ''find'', insideMain)"
proof -
  have 1: "parseCommandLine (trim ''find --type searchbox'') = ''find'' # [''--type'', ''searchbox'']"
    by code_simp
  have 2: "toLowerCase ''find'' = ''find''" by code_simp
  from find_is_not_a_command [OF 1 2] show ?thesis .
qed

text \<open>
  C9 as stated fails: below the working directory there is an entry whose name contains
  the pattern, and find returns no path.
\<close>

theorem find_finds_nothing:
  "cwd (state attachedMain) = [''1''] \<and>
   map vfsName (getChildVFSNodes ''2'' (nodeMap attachedMain)) = [''search_search''] \<and>
   fst (executeCommand (pageBrowser mainTree) ''find search'' attachedMain) = CommandNotFound ''find''"
  by code_simp

end
